theory Spec2Isabelle
  imports Main
begin

section \<open>Infrastructure declarations of ocs-deploy\<close>

text \<open>
  The three stacks of \<^verbatim>\<open>src/ocs_deploy\<close> (\<^verbatim>\<open>ecr.py\<close>, \<^verbatim>\<open>fargate.py\<close>, \<^verbatim>\<open>waf.py\<close>)
  build resource descriptors by calling constructors and methods of the AWS CDK. The
  embedding follows the Python text: every constructor call becomes a record holding the
  keyword arguments that the source passes, every mutating method call (\<^verbatim>\<open>add_lifecycle_rule\<close>,
  \<^verbatim>\<open>add_container\<close>, \<^verbatim>\<open>add_to_policy\<close>, ...) becomes a function that returns the updated
  descriptor, and a keyword argument that the source leaves out is \<open>None\<close> unless the text
  below says which default is written out.

  Python integers are \<open>int\<close>, Python strings are \<open>string\<close>, a Python \<^verbatim>\<open>dict\<close> is an association
  list in insertion order with unique keys, and a Python list is a list. The validation
  that the CDK or the platform performs on the descriptors (construct-id collisions,
  quotas, name syntax) is not part of the repository and is not modelled.
\<close>

subsection \<open>Values shared by the stacks\<close>

text \<open>\<^verbatim>\<open>cdk.Duration.days(n)\<close> and \<^verbatim>\<open>cdk.Duration.seconds(n)\<close>.\<close>

datatype duration = Duration_days int | Duration_seconds int

fun to_seconds :: "duration \<Rightarrow> int" where
  "to_seconds (Duration_days n) = n * 86400"
| "to_seconds (Duration_seconds n) = n"

datatype removal_policy = DESTROY | RETAIN

text \<open>\<^verbatim>\<open>cdk.CfnOutput(self, id, value=..., description=...)\<close>.\<close>

record cfn_output =
  output_id :: string
  output_value :: string
  output_description :: "string option"

definition CfnOutput :: "string \<Rightarrow> string \<Rightarrow> string option \<Rightarrow> cfn_output" where
  "CfnOutput i v d = \<lparr>output_id = i, output_value = v, output_description = d\<rparr>"

text \<open>
  \<^verbatim>\<open>iam.PolicyStatement(actions=, effect=, principals=, resources=)\<close>. The argument
  \<^verbatim>\<open>effect\<close> is optional in the CDK and defaults to \<^verbatim>\<open>Effect.ALLOW\<close>; the default is
  written out in the constructor.
\<close>

datatype effect = ALLOW | DENY

datatype principal = ServicePrincipal string

record policy_statement =
  actions :: "string list"
  statement_effect :: effect
  principals :: "principal list"
  resources :: "string list"

definition PolicyStatement ::
  "string list \<Rightarrow> effect option \<Rightarrow> principal list \<Rightarrow> string list \<Rightarrow> policy_statement" where
  "PolicyStatement a e p r =
     \<lparr>actions = a, statement_effect = (case e of None \<Rightarrow> ALLOW | Some x \<Rightarrow> x),
      principals = p, resources = r\<rparr>"

text \<open>
  A Python \<^verbatim>\<open>dict\<close>: \<^verbatim>\<open>d[k] = v\<close> replaces the value of an existing key where it stands and
  appends a new key at the end.
\<close>

primrec dict_set :: "'k \<Rightarrow> 'v \<Rightarrow> ('k \<times> 'v) list \<Rightarrow> ('k \<times> 'v) list" where
  "dict_set k v [] = [(k, v)]"
| "dict_set k v (p # ps) = (if fst p = k then (k, v) # ps else p # dict_set k v ps)"

text \<open>
  \<^verbatim>\<open>str.upper()\<close> on ASCII text: the letters \<^verbatim>\<open>a\<close> to \<^verbatim>\<open>z\<close> (codes 97 to 122) lose bit 5,
  which is the subtraction of 32; every other byte is kept. Names of secrets in the secret
  store are ASCII, so the bytes above 127, where Python's Unicode case mapping differs, do
  not occur.
\<close>

definition upper_char :: "char \<Rightarrow> char" where
  "upper_char c =
     (if 97 \<le> (of_char c :: nat) \<and> (of_char c :: nat) \<le> 122
      then Char (digit0 c) (digit1 c) (digit2 c) (digit3 c) (digit4 c) False (digit6 c) (digit7 c)
      else c)"

definition upper :: "string \<Rightarrow> string" where
  "upper s = map upper_char s"

text \<open>\<^verbatim>\<open>s.replace(old, new)\<close> for a non-empty \<^verbatim>\<open>old\<close>: leftmost occurrences, not overlapping.\<close>

fun replace_str :: "string \<Rightarrow> string \<Rightarrow> string \<Rightarrow> string" where
  "replace_str old new [] = []"
| "replace_str old new (c # cs) =
     (if old \<noteq> [] \<and> take (length old) (c # cs) = old
      then new @ replace_str old new (drop (length old - 1) cs)
      else c # replace_str old new cs)"

subsection \<open>The configuration object\<close>

text \<open>
  \<^verbatim>\<open>ocs_deploy.config.OCSConfig\<close> is imported by the three files and is not among them.
  It is taken as a parameter: a record of the attributes and of the results of the methods
  that the stacks read. \<^verbatim>\<open>make_name\<close> and \<^verbatim>\<open>stack_name\<close> are arbitrary functions on
  strings; \<^verbatim>\<open>make_name()\<close> without an argument is the separate field \<open>make_name_default\<close>.
  \<^verbatim>\<open>get_secrets_list()\<close> returns objects with a \<^verbatim>\<open>name\<close> and a \<^verbatim>\<open>managed\<close> flag.
\<close>

record secret =
  secret_name :: string
  managed :: bool

record OCSConfig =
  make_name :: "string \<Rightarrow> string"
  make_name_default :: string
  stack_name :: "string \<Rightarrow> string"
  env :: "string \<times> string"
  cdk_env :: "string \<times> string"
  DJANGO_STACK :: string
  ECR_STACK :: string
  ecr_repo_name :: string
  django_secret_key_secrets_name :: string
  s3_private_bucket_name :: string
  s3_public_bucket_name :: string
  s3_whatsapp_audio_bucket :: string
  region :: string
  azure_region :: string
  rds_db_name :: string
  privacy_policy_url :: string
  terms_url :: string
  signup_enabled :: string
  slack_bot_name :: string
  taskbadger_org :: string
  taskbadger_project :: string
  get_secrets_list :: "secret list"

subsection \<open>Registry declaration (\<^verbatim>\<open>ecr.py\<close>)\<close>

datatype tag_status = UNTAGGED | TAGGED | ANY

text \<open>The keyword arguments of \<^verbatim>\<open>Repository.add_lifecycle_rule\<close> that the source uses.\<close>

record lifecycle_rule =
  max_image_age :: "duration option"
  max_image_count :: "int option"
  rule_priority :: "int option"
  rule_tag_status :: "tag_status option"

record repository =
  repository_id :: string
  repository_name :: string
  repository_removal_policy :: removal_policy
  lifecycle_rules :: "lifecycle_rule list"

definition Repository :: "string \<Rightarrow> string \<Rightarrow> removal_policy \<Rightarrow> repository" where
  "Repository i n p =
     \<lparr>repository_id = i, repository_name = n, repository_removal_policy = p,
      lifecycle_rules = []\<rparr>"

definition add_lifecycle_rule :: "lifecycle_rule \<Rightarrow> repository \<Rightarrow> repository" where
  "add_lifecycle_rule r repo = repo\<lparr>lifecycle_rules := lifecycle_rules repo @ [r]\<rparr>"

text \<open>The attributes \<^verbatim>\<open>repository_arn\<close> and \<^verbatim>\<open>repository_uri\<close> are references resolved at
  deployment; they are written as attribute paths of the construct.\<close>

definition repository_arn :: "repository \<Rightarrow> string" where
  "repository_arn repo = repository_id repo @ ''.Arn''"

definition repository_uri :: "repository \<Rightarrow> string" where
  "repository_uri repo = repository_id repo @ ''.RepositoryUri''"

record EcrStack =
  ecr_stack_name :: string
  ecr_stack_env :: "string \<times> string"
  repo :: repository
  ecr_outputs :: "cfn_output list"

definition setup_ecr :: "OCSConfig \<Rightarrow> repository \<times> cfn_output list" where
  "setup_ecr config =
     (let ecr_repo = Repository (make_name config ''ECR'') (ecr_repo_name config) DESTROY;
          ecr_repo = add_lifecycle_rule
            \<lparr>max_image_age = Some (Duration_days 7), max_image_count = None,
             rule_priority = Some 1, rule_tag_status = Some UNTAGGED\<rparr> ecr_repo;
          ecr_repo = add_lifecycle_rule
            \<lparr>max_image_age = None, max_image_count = Some 4,
             rule_priority = Some 2, rule_tag_status = Some ANY\<rparr> ecr_repo
      in (ecr_repo,
          [CfnOutput (make_name config ''ECRRepositoryArn'') (repository_arn ecr_repo) None,
           CfnOutput (make_name config ''ECRRepositoryUri'') (repository_uri ecr_repo) None]))"

definition EcrStack_init :: "OCSConfig \<Rightarrow> EcrStack" where
  "EcrStack_init config =
     (let (r, outs) = setup_ecr config
      in \<lparr>ecr_stack_name = stack_name config (ECR_STACK config),
          ecr_stack_env = cdk_env config, repo = r, ecr_outputs = outs\<rparr>)"

subsection \<open>Firewall declaration (\<^verbatim>\<open>waf.py\<close>)\<close>

text \<open>
  The property classes of \<^verbatim>\<open>wafv2.CfnWebACL\<close>. An action is chosen by setting one of the
  fields of the action property to a (here empty) dictionary; a field that is not passed is
  \<open>None\<close>.
\<close>

record DefaultActionProperty =
  default_allow :: "unit option"
  default_block :: "unit option"

record RuleActionProperty =
  action_allow :: "unit option"
  action_block :: "unit option"
  action_captcha :: "unit option"
  action_challenge :: "unit option"
  action_count :: "unit option"

record OverrideActionProperty =
  override_count :: "unit option"
  override_none :: "unit option"

record VisibilityConfigProperty =
  cloud_watch_metrics_enabled :: bool
  metric_name :: string
  sampled_requests_enabled :: bool

record ManagedRuleGroupStatementProperty =
  vendor_name :: string
  rule_group_name :: string

record RateBasedStatementProperty =
  limit :: int
  aggregate_key_type :: string

record StatementProperty =
  managed_rule_group_statement :: "ManagedRuleGroupStatementProperty option"
  rate_based_statement :: "RateBasedStatementProperty option"

record RuleProperty =
  rule_name :: string
  priority :: int
  statement :: StatementProperty
  rule_action :: "RuleActionProperty option"
  override_action :: "OverrideActionProperty option"
  rule_visibility_config :: VisibilityConfigProperty

record CfnWebACL =
  web_acl_id :: string
  web_acl_name :: string
  web_acl_scope :: string
  default_action :: DefaultActionProperty
  visibility_config :: VisibilityConfigProperty
  rules :: "RuleProperty list"

definition attr_arn :: "CfnWebACL \<Rightarrow> string" where
  "attr_arn acl = web_acl_id acl @ ''.Arn''"

record CfnWebACLAssociation =
  association_id :: string
  association_web_acl_arn :: string
  association_resource_arn :: string

datatype RetentionDays = ONE_DAY | ONE_WEEK | ONE_MONTH | ONE_YEAR | TWO_YEARS | INFINITE

text \<open>
  \<^verbatim>\<open>logs.LogGroup\<close>. The log group owns its resource policy: the first call of
  \<^verbatim>\<open>add_to_resource_policy\<close> creates the policy as a child construct of the log group,
  every call appends its statement to the policy's document.
\<close>

record LogGroup =
  log_group_id :: string
  log_group_name :: string
  retention :: RetentionDays
  log_group_removal_policy :: removal_policy
  resource_policy :: "policy_statement list option"

definition log_group_arn :: "LogGroup \<Rightarrow> string" where
  "log_group_arn lg = log_group_id lg @ ''.Arn''"

definition add_to_resource_policy :: "policy_statement \<Rightarrow> LogGroup \<Rightarrow> LogGroup" where
  "add_to_resource_policy st lg =
     lg\<lparr>resource_policy :=
          Some ((case resource_policy lg of None \<Rightarrow> [] | Some sts \<Rightarrow> sts) @ [st])\<rparr>"

text \<open>
  \<^verbatim>\<open>wafv2.CfnLoggingConfiguration\<close>. \<^verbatim>\<open>node.add_dependency(c)\<close> records the construct
  \<open>c\<close> by reference (here: by its construct id), not a copy of its state.
\<close>

record CfnLoggingConfiguration =
  logging_config_id :: string
  logging_resource_arn :: string
  log_destination_configs :: "string list"
  node_dependencies :: "string list"

definition add_dependency :: "string \<Rightarrow> CfnLoggingConfiguration \<Rightarrow> CfnLoggingConfiguration" where
  "add_dependency c lc = lc\<lparr>node_dependencies := node_dependencies lc @ [c]\<rparr>"

text \<open>
  When the template is synthesized, a dependency on a construct becomes a dependency on
  every resource below that construct. Below a log group these are the log group resource
  itself and, when a resource policy has been attached, the resource policy. Any other
  construct id stands for itself.
\<close>

definition log_group_resource :: "LogGroup \<Rightarrow> string" where
  "log_group_resource lg = log_group_id lg @ ''/Resource''"

definition log_group_policy_resource :: "LogGroup \<Rightarrow> string" where
  "log_group_policy_resource lg = log_group_id lg @ ''/Policy/ResourcePolicy''"

definition construct_resources :: "LogGroup \<Rightarrow> string list" where
  "construct_resources lg =
     log_group_resource lg #
     (case resource_policy lg of None \<Rightarrow> [] | Some sts \<Rightarrow> [log_group_policy_resource lg])"

definition depends_on :: "LogGroup \<Rightarrow> CfnLoggingConfiguration \<Rightarrow> string list" where
  "depends_on lg lc =
     concat (map (\<lambda>c. if c = log_group_id lg then construct_resources lg else [c])
                 (node_dependencies lc))"

record WAFStack =
  waf_stack_name :: string
  waf_stack_env :: "string \<times> string"
  waf_config :: OCSConfig
  web_acl :: CfnWebACL
  waf_association :: CfnWebACLAssociation
  waf_log_group :: LogGroup
  waf_logging_config :: CfnLoggingConfiguration
  waf_outputs :: "cfn_output list"

definition WAFStack_init :: "OCSConfig \<Rightarrow> string \<Rightarrow> WAFStack" where
  "WAFStack_init config load_balancer_arn =
     (let acl =
            \<lparr>web_acl_id = ''DjangoWebACL'',
             web_acl_name = make_name config ''DjangoWAF'',
             web_acl_scope = ''REGIONAL'',
             default_action = \<lparr>default_allow = Some (), default_block = None\<rparr>,
             visibility_config =
               \<lparr>cloud_watch_metrics_enabled = True,
                metric_name = make_name config ''DjangoWAFMetrics'',
                sampled_requests_enabled = True\<rparr>,
             rules =
               [\<lparr>rule_name = ''AWSManagedCommonRuleSet'',
                 priority = 0,
                 statement =
                   \<lparr>managed_rule_group_statement =
                      Some \<lparr>vendor_name = ''AWS'',
                            rule_group_name = ''AWSManagedRulesCommonRuleSet''\<rparr>,
                    rate_based_statement = None\<rparr>,
                 rule_action = None,
                 override_action = Some \<lparr>override_count = Some (), override_none = None\<rparr>,
                 rule_visibility_config =
                   \<lparr>cloud_watch_metrics_enabled = True,
                    metric_name = make_name config ''CommonRuleSetMetrics'',
                    sampled_requests_enabled = True\<rparr>\<rparr>,
                \<lparr>rule_name = ''RateLimitRule'',
                 priority = 1,
                 statement =
                   \<lparr>managed_rule_group_statement = None,
                    rate_based_statement =
                      Some \<lparr>limit = 2000, aggregate_key_type = ''IP''\<rparr>\<rparr>,
                 rule_action =
                   Some \<lparr>action_allow = None, action_block = None, action_captcha = None,
                         action_challenge = None, action_count = Some ()\<rparr>,
                 override_action = None,
                 rule_visibility_config =
                   \<lparr>cloud_watch_metrics_enabled = True,
                    metric_name = make_name config ''RateLimitMetrics'',
                    sampled_requests_enabled = True\<rparr>\<rparr>]\<rparr>;
          assoc =
            \<lparr>association_id = ''WAFAssociation'',
             association_web_acl_arn = attr_arn acl,
             association_resource_arn = load_balancer_arn\<rparr>;
          log_group =
            \<lparr>log_group_id = ''WAFLogGroup'',
             log_group_name = ''aws-waf-logs-'' @ make_name config ''waf-logs'',
             retention = TWO_YEARS,
             log_group_removal_policy = RETAIN,
             resource_policy = None\<rparr>;
          log_group =
            add_to_resource_policy
              (PolicyStatement [''logs:CreateLogStream'', ''logs:PutLogEvents''] None
                 [ServicePrincipal ''wafv2.amazonaws.com''] [log_group_arn log_group])
              log_group;
          logging_config =
            \<lparr>logging_config_id = ''WAFLoggingConfig'',
             logging_resource_arn = attr_arn acl,
             log_destination_configs = [replace_str '':*'' [] (log_group_arn log_group)],
             node_dependencies = []\<rparr>;
          logging_config = add_dependency (log_group_id log_group) logging_config
      in \<lparr>waf_stack_name = stack_name config ''waf'',
          waf_stack_env = cdk_env config,
          waf_config = config,
          web_acl = acl,
          waf_association = assoc,
          waf_log_group = log_group,
          waf_logging_config = logging_config,
          waf_outputs =
            [CfnOutput (make_name config ''WebACLArn'') (attr_arn acl)
               (Some ''ARN of the WAF Web ACL''),
             CfnOutput (make_name config ''WAFLogGroupArn'') (log_group_arn log_group)
               (Some ''ARN of the WAF Log Group'')]\<rparr>)"

subsection \<open>Compute service declaration (\<^verbatim>\<open>fargate.py\<close>)\<close>

text \<open>
  The collaborators: the network, the database stack, the cache stack and the domain stack
  are built elsewhere. Of each, the record keeps what \<^verbatim>\<open>fargate.py\<close> reads. A secret of the
  secret store (\<^verbatim>\<open>secretsmanager.ISecret\<close>) is one of: a secret owned by another stack,
  referred to by a handle; a secret declared with \<^verbatim>\<open>secretsmanager.Secret(self, id,
  secret_name=, generate_secret_string=SecretStringGenerator(password_length=))\<close>; a secret
  looked up with \<^verbatim>\<open>Secret.from_secret_name_v2(self, id, secret_name)\<close>.
\<close>

datatype ISecret =
    ExternalSecret string
  | Secret string string int
  | from_secret_name_v2 string string

text \<open>\<^verbatim>\<open>ecs.Secret.from_secrets_manager(secret, field=None)\<close>.\<close>

datatype ecs_secret = from_secrets_manager ISecret "string option"

record rds_stack =
  db_instance_endpoint_hostname :: string
  db_instance_endpoint_port :: string
  db_instance_secret :: ISecret

record redis_stack =
  redis_url_secret :: ISecret

record domain_stack =
  certificate :: string

datatype peer = any_ipv4

datatype port = tcp int

record SecurityGroup =
  security_group_id :: string
  security_group_vpc :: string
  allow_all_outbound :: bool
  ingress_rules :: "(peer \<times> port) list"

definition add_ingress_rule :: "peer \<Rightarrow> port \<Rightarrow> SecurityGroup \<Rightarrow> SecurityGroup" where
  "add_ingress_rule p q sg = sg\<lparr>ingress_rules := ingress_rules sg @ [(p, q)]\<rparr>"

record Cluster =
  cluster_id :: string
  cluster_vpc :: string
  container_insights :: bool
  cluster_name :: string

record Role =
  role_id :: string
  assumed_by :: principal
  managed_policies :: "string list"
  role_policy :: "policy_statement list"

definition add_managed_policy :: "string \<Rightarrow> Role \<Rightarrow> Role" where
  "add_managed_policy p r = r\<lparr>managed_policies := managed_policies r @ [p]\<rparr>"

definition add_to_policy :: "policy_statement \<Rightarrow> Role \<Rightarrow> Role" where
  "add_to_policy st r = r\<lparr>role_policy := role_policy r @ [st]\<rparr>"

datatype ContainerImage = from_ecr_repository repository string

datatype LogDriver = AwsLogDriver string

record PortMapping =
  container_port :: int

text \<open>
  The keyword arguments of \<^verbatim>\<open>TaskDefinition.add_container(id, ...)\<close>: the construct id is
  the positional argument, the container's configuration are the options. \<^verbatim>\<open>command\<close>,
  \<^verbatim>\<open>health_check\<close> and \<^verbatim>\<open>port_mappings\<close> are \<open>None\<close> when they are not passed;
  \<^verbatim>\<open>health_check=None\<close> passes \<open>None\<close>.
\<close>

record ContainerDefinitionOptions =
  image :: ContainerImage
  container_name :: string
  command :: "string list option"
  health_check :: "string option"
  essential :: bool
  port_mappings :: "PortMapping list option"
  environment :: "(string \<times> string) list"
  secrets :: "(string \<times> ecs_secret) list"
  logging :: LogDriver

datatype ContainerDependencyCondition = START | COMPLETE | SUCCESS | HEALTHY

text \<open>
  A container object is shared between the task definition that holds it, the variable
  that names it and the dependencies that point to it. The task definition is the store:
  a container is referred to by its position in \<open>containers\<close>, which \<open>add_container\<close>
  returns.
\<close>

record ContainerDependency =
  dependency_container :: nat
  condition :: ContainerDependencyCondition

record ContainerDefinition =
  container_id :: string
  props :: ContainerDefinitionOptions
  container_dependencies :: "ContainerDependency list"

record FargateTaskDefinition =
  task_definition_id :: string
  task_cpu :: int
  task_memory_limit_mib :: int
  execution_role :: Role
  task_role :: Role
  containers :: "ContainerDefinition list"

definition add_container ::
  "string \<Rightarrow> ContainerDefinitionOptions \<Rightarrow> FargateTaskDefinition
     \<Rightarrow> nat \<times> FargateTaskDefinition" where
  "add_container i opts td =
     (length (containers td),
      td\<lparr>containers := containers td @
            [\<lparr>container_id = i, props = opts, container_dependencies = []\<rparr>]\<rparr>)"

text \<open>The handle comes from \<open>add_container\<close>; a handle out of range changes nothing.\<close>

definition add_container_dependencies ::
  "nat \<Rightarrow> ContainerDependency \<Rightarrow> FargateTaskDefinition \<Rightarrow> FargateTaskDefinition" where
  "add_container_dependencies h d td =
     (if h < length (containers td)
      then td\<lparr>containers := (containers td)
             [h := (containers td ! h)\<lparr>container_dependencies :=
                      container_dependencies (containers td ! h) @ [d]\<rparr>]\<rparr>
      else td)"

definition get_execution_role :: Role where
  "get_execution_role =
     (let execution_role =
            \<lparr>role_id = ''ecsTaskExecutionRole'',
             assumed_by = ServicePrincipal ''ecs-tasks.amazonaws.com'',
             managed_policies = [], role_policy = []\<rparr>;
          execution_role =
            add_managed_policy ''service-role/AmazonECSTaskExecutionRolePolicy'' execution_role;
          execution_role =
            add_to_policy
              (PolicyStatement
                 [''ecr:GetAuthorizationToken'', ''ecr:BatchCheckLayerAvailability'',
                  ''ecr:GetDownloadUrlForLayer'', ''ecr:BatchGetImage'',
                  ''logs:CreateLogStream'', ''logs:PutLogEvents'']
                 (Some ALLOW) [] [''*''])
              execution_role
      in execution_role)"

text \<open>
  In \<^verbatim>\<open>_get_task_role\<close> the three f-strings between the brackets of \<^verbatim>\<open>resources=[...]\<close>
  follow each other without a comma. Python joins adjacent string literals into one
  literal, so the list has one element.
\<close>

definition get_task_role :: "OCSConfig \<Rightarrow> Role" where
  "get_task_role config =
     (let task_role =
            \<lparr>role_id = ''ecsTaskRole'',
             assumed_by = ServicePrincipal ''ecs-tasks.amazonaws.com'',
             managed_policies = [], role_policy = []\<rparr>;
          task_role =
            add_to_policy
              (PolicyStatement
                 [''s3:PutObject'', ''s3:GetObjectAcl'', ''s3:GetObject'', ''s3:ListBucket'',
                  ''s3:DeleteObject'', ''s3:PutObjectAcl'', ''s3:GetBucketAcl'']
                 (Some ALLOW) []
                 [''arn:aws:s3:::'' @ s3_private_bucket_name config @ ''/*''
                  @ ''arn:aws:s3:::'' @ s3_public_bucket_name config @ ''/*''
                  @ ''arn:aws:s3:::'' @ s3_whatsapp_audio_bucket config @ ''/*''])
              task_role
      in task_role)"

text \<open>The dictionary literal \<^verbatim>\<open>environment\<close>; \<^verbatim>\<open>str(container_port)\<close> is \<^verbatim>\<open>"8000"\<close>.\<close>

definition task_environment :: "rds_stack \<Rightarrow> OCSConfig \<Rightarrow> (string \<times> string) list" where
  "task_environment rds config =
     [(''ACCOUNT_EMAIL_VERIFICATION'', ''mandatory''),
      (''AWS_PRIVATE_STORAGE_BUCKET_NAME'', s3_private_bucket_name config),
      (''AWS_PUBLIC_STORAGE_BUCKET_NAME'', s3_public_bucket_name config),
      (''AWS_S3_REGION'', region config),
      (''AZURE_REGION'', azure_region config),
      (''DJANGO_DATABASE_NAME'', rds_db_name config),
      (''DJANGO_DATABASE_HOST'', db_instance_endpoint_hostname rds),
      (''DJANGO_DATABASE_PORT'', db_instance_endpoint_port rds),
      (''DJANGO_EMAIL_BACKEND'', ''anymail.backends.amazon_ses.EmailBackend''),
      (''DJANGO_SECURE_SSL_REDIRECT'', ''false''),
      (''DJANGO_SETTINGS_MODULE'', ''gpt_playground.settings_production''),
      (''PORT'', ''8000''),
      (''PRIVACY_POLICY_URL'', privacy_policy_url config),
      (''TERMS_URL'', terms_url config),
      (''SIGNUP_ENABLED'', signup_enabled config),
      (''SLACK_BOT_NAME'', slack_bot_name config),
      (''USE_S3_STORAGE'', ''True''),
      (''WHATSAPP_S3_AUDIO_BUCKET'', s3_whatsapp_audio_bucket config),
      (''TASKBADGER_ORG'', taskbadger_org config),
      (''TASKBADGER_PROJECT'', taskbadger_project config)]"

text \<open>The dictionary literal \<^verbatim>\<open>secrets\<close>, with its four keys.\<close>

definition builtin_secrets ::
  "rds_stack \<Rightarrow> redis_stack \<Rightarrow> ISecret \<Rightarrow> (string \<times> ecs_secret) list" where
  "builtin_secrets rds redis django_secret_key =
     [(''DJANGO_DATABASE_USER'',
         from_secrets_manager (db_instance_secret rds) (Some ''username'')),
      (''DJANGO_DATABASE_PASSWORD'',
         from_secrets_manager (db_instance_secret rds) (Some ''password'')),
      (''REDIS_URL'', from_secrets_manager (redis_url_secret redis) None),
      (''SECRET_KEY'', from_secrets_manager django_secret_key None)]"

text \<open>
  The loop \<^verbatim>\<open>for secret in config.get_secrets_list()\<close>: a managed secret is skipped, an
  unmanaged one is looked up by its name and stored under its uppercased name.
\<close>

fun secrets_loop ::
  "secret list \<Rightarrow> (string \<times> ecs_secret) list \<Rightarrow> (string \<times> ecs_secret) list" where
  "secrets_loop [] d = d"
| "secrets_loop (s # rest) d =
     (if managed s then secrets_loop rest d
      else secrets_loop rest
             (dict_set (upper (secret_name s))
                (from_secrets_manager
                   (from_secret_name_v2 (secret_name s) (secret_name s)) None)
                d))"

definition get_task_definition ::
  "rds_stack \<Rightarrow> redis_stack \<Rightarrow> repository \<Rightarrow> OCSConfig \<Rightarrow> FargateTaskDefinition" where
  "get_task_definition rds redis ecr_repo config =
     (let task_role = get_task_role config;
          execution_role = get_execution_role;
          log_driver = AwsLogDriver (make_name_default config);
          django_secret_key =
            Secret (django_secret_key_secrets_name config)
                   (django_secret_key_secrets_name config) 50;
          container_port = 8000;
          environment = task_environment rds config;
          secrets = builtin_secrets rds redis django_secret_key;
          secrets = secrets_loop (get_secrets_list config) secrets;
          image = from_ecr_repository ecr_repo ''latest'';
          django_task =
            \<lparr>task_definition_id = make_name config ''DjangoMigrations'',
             task_cpu = 256, task_memory_limit_mib = 512,
             execution_role = execution_role, task_role = task_role,
             containers = []\<rparr>;
          (migration_container, django_task) =
            add_container ''django_container''
              \<lparr>image = image, container_name = ''migrate'',
               command = Some [''python'', ''manage.py'', ''migrate''],
               health_check = None, essential = False, port_mappings = None,
               environment = environment, secrets = secrets, logging = log_driver\<rparr>
              django_task;
          (webserver_container, django_task) =
            add_container ''web''
              \<lparr>image = image, container_name = ''web'',
               command = None,
               health_check = None, essential = True,
               port_mappings = Some [\<lparr>container_port = container_port\<rparr>],
               environment = environment, secrets = secrets, logging = log_driver\<rparr>
              django_task;
          django_task =
            add_container_dependencies webserver_container
              \<lparr>dependency_container = migration_container, condition = SUCCESS\<rparr>
              django_task
      in django_task)"

text \<open>
  \<^verbatim>\<open>ecs_patterns.ApplicationLoadBalancedFargateService\<close> with the keyword arguments of the
  source, and the scaling that \<^verbatim>\<open>service.auto_scale_task_count\<close> and
  \<^verbatim>\<open>scale_on_cpu_utilization\<close> attach to its service.
\<close>

datatype ApplicationProtocol = HTTP | HTTPS

record CpuUtilizationScaling =
  scaling_policy_id :: string
  target_utilization_percent :: int
  scale_in_cooldown :: duration
  scale_out_cooldown :: duration

record ScalableTaskCount =
  max_capacity :: int
  min_capacity :: int
  cpu_utilization_scaling :: "CpuUtilizationScaling list"

definition scale_on_cpu_utilization ::
  "string \<Rightarrow> int \<Rightarrow> duration \<Rightarrow> duration \<Rightarrow> ScalableTaskCount \<Rightarrow> ScalableTaskCount" where
  "scale_on_cpu_utilization i pct cin cout sc =
     sc\<lparr>cpu_utilization_scaling := cpu_utilization_scaling sc @
          [\<lparr>scaling_policy_id = i, target_utilization_percent = pct,
            scale_in_cooldown = cin, scale_out_cooldown = cout\<rparr>]\<rparr>"

record ApplicationLoadBalancedFargateService =
  service_id :: string
  service_cluster :: Cluster
  security_groups :: "SecurityGroup list"
  cpu :: int
  memory_limit_mib :: int
  desired_count :: int
  public_load_balancer :: bool
  load_balancer_name :: string
  service_name :: string
  service_certificate :: string
  redirect_http :: bool
  protocol :: ApplicationProtocol
  task_definition :: FargateTaskDefinition
  scaling :: "ScalableTaskCount option"

definition auto_scale_task_count ::
  "int \<Rightarrow> int \<Rightarrow> ApplicationLoadBalancedFargateService
     \<Rightarrow> ApplicationLoadBalancedFargateService" where
  "auto_scale_task_count mx mn svc =
     svc\<lparr>scaling := Some \<lparr>max_capacity = mx, min_capacity = mn,
                           cpu_utilization_scaling = []\<rparr>\<rparr>"

definition load_balancer_dns_name :: "ApplicationLoadBalancedFargateService \<Rightarrow> string" where
  "load_balancer_dns_name svc = load_balancer_name svc @ ''.DNSName''"

record FargateStack =
  fargate_stack_name :: string
  fargate_stack_env :: "string \<times> string"
  fargate_service :: ApplicationLoadBalancedFargateService
  fargate_outputs :: "cfn_output list"

definition setup_fargate_service ::
  "string \<Rightarrow> repository \<Rightarrow> rds_stack \<Rightarrow> redis_stack \<Rightarrow> domain_stack \<Rightarrow> OCSConfig
     \<Rightarrow> ApplicationLoadBalancedFargateService \<times> cfn_output list" where
  "setup_fargate_service vpc ecr_repo rds redis domain config =
     (let http_sg =
            \<lparr>security_group_id = make_name config ''HttpSG'', security_group_vpc = vpc,
             allow_all_outbound = True, ingress_rules = []\<rparr>;
          http_sg = add_ingress_rule any_ipv4 (tcp 80) http_sg;
          https_sg =
            \<lparr>security_group_id = make_name config ''HttpsSG'', security_group_vpc = vpc,
             allow_all_outbound = True, ingress_rules = []\<rparr>;
          https_sg = add_ingress_rule any_ipv4 (tcp 443) https_sg;
          cluster =
            \<lparr>cluster_id = make_name config ''DeploymentCluster'', cluster_vpc = vpc,
             container_insights = True, cluster_name = make_name config ''Cluster''\<rparr>;
          fargate_service =
            \<lparr>service_id = make_name config ''FargateService'',
             service_cluster = cluster,
             security_groups = [http_sg, https_sg],
             cpu = 256,
             memory_limit_mib = 512,
             desired_count = 1,
             public_load_balancer = True,
             load_balancer_name = make_name config ''LoadBalancer'',
             service_name = make_name config ''Django'',
             service_certificate = certificate domain,
             redirect_http = True,
             protocol = HTTPS,
             task_definition = get_task_definition rds redis ecr_repo config,
             scaling = None\<rparr>;
          fargate_service = auto_scale_task_count 2 1 fargate_service;
          fargate_service =
            fargate_service\<lparr>scaling :=
              map_option
                (scale_on_cpu_utilization (make_name config ''CpuScaling'') 70
                   (Duration_seconds 60) (Duration_seconds 60))
                (scaling fargate_service)\<rparr>
      in (fargate_service,
          [CfnOutput (make_name config ''FargateServiceLoadBalancerDNS'')
             (load_balancer_dns_name fargate_service) None]))"

definition FargateStack_init ::
  "string \<Rightarrow> repository \<Rightarrow> rds_stack \<Rightarrow> redis_stack \<Rightarrow> domain_stack \<Rightarrow> OCSConfig
     \<Rightarrow> FargateStack" where
  "FargateStack_init vpc ecr_repo rds redis domain config =
     (let (svc, outs) = setup_fargate_service vpc ecr_repo rds redis domain config
      in \<lparr>fargate_stack_name = stack_name config (DJANGO_STACK config),
          fargate_stack_env = env config,
          fargate_service = svc,
          fargate_outputs = outs\<rparr>)"

subsection \<open>Vocabulary of the properties\<close>

text \<open>The keys of the dictionary literal \<^verbatim>\<open>secrets\<close>, in the order of the source.\<close>

definition builtin_keys :: "string list" where
  "builtin_keys = [''DJANGO_DATABASE_USER'', ''DJANGO_DATABASE_PASSWORD'', ''REDIS_URL'', ''SECRET_KEY'']"

text \<open>The secrets of the configuration that the loop does not skip.\<close>

definition unmanaged_secrets :: "OCSConfig \<Rightarrow> secret list" where
  "unmanaged_secrets config = filter (\<lambda>s. \<not> managed s) (get_secrets_list config)"

text \<open>The reference that the loop stores for a secret: a lookup by the secret's name.\<close>

definition by_name :: "secret \<Rightarrow> ecs_secret" where
  "by_name s = from_secrets_manager (from_secret_name_v2 (secret_name s) (secret_name s)) None"

text \<open>
  The value of the local variable \<^verbatim>\<open>secrets\<close> of \<^verbatim>\<open>_get_task_definition\<close> after the loop:
  the dictionary that both \<^verbatim>\<open>add_container\<close> calls receive.
\<close>

definition task_secrets :: "rds_stack \<Rightarrow> redis_stack \<Rightarrow> OCSConfig \<Rightarrow> (string \<times> ecs_secret) list" where
  "task_secrets rds redis config =
     secrets_loop (get_secrets_list config)
       (builtin_secrets rds redis
          (Secret (django_secret_key_secrets_name config) (django_secret_key_secrets_name config) 50))"

text \<open>No unmanaged secret has an uppercased name that is one of the four built-in keys.\<close>

definition no_builtin_clash :: "OCSConfig \<Rightarrow> bool" where
  "no_builtin_clash config =
     (\<forall>s \<in> set (unmanaged_secrets config). upper (secret_name s) \<notin> set builtin_keys)"

text \<open>
  A rule only counts when its action, or for a rule group its override action, is
  \<^verbatim>\<open>count\<close> and nothing else. A rule specifies a blocking action when its action has the
  field \<^verbatim>\<open>block\<close>; an override action has no such field.
\<close>

definition counts_only :: "RuleProperty \<Rightarrow> bool" where
  "counts_only r =
     (case (rule_action r, override_action r) of
        (Some a, None) \<Rightarrow>
          action_count a = Some () \<and> action_block a = None \<and> action_allow a = None
          \<and> action_captcha a = None \<and> action_challenge a = None
      | (None, Some ov) \<Rightarrow> override_count ov = Some () \<and> override_none ov = None
      | _ \<Rightarrow> False)"

definition specifies_block :: "RuleProperty \<Rightarrow> bool" where
  "specifies_block r =
     (case rule_action r of None \<Rightarrow> False | Some a \<Rightarrow> action_block a \<noteq> None)"

subsection \<open>Sample inputs\<close>

text \<open>
  A configuration, a database stack and a cache stack with concrete values. The list of
  secrets is the argument: one unmanaged and one managed secret; two unmanaged
  secrets whose names differ only in case; one unmanaged secret whose uppercased name is a
  built-in key; one managed secret whose uppercased name is a built-in key.
\<close>

definition sample_config :: "secret list \<Rightarrow> OCSConfig" where
  "sample_config xs =
     \<lparr>make_name = (\<lambda>n. ''ocs-test-'' @ n), make_name_default = ''ocs-test'',
      stack_name = (\<lambda>n. ''ocs-test-'' @ n @ ''-stack''),
      env = (''111122223333'', ''us-east-1''), cdk_env = (''111122223333'', ''us-east-1''),
      DJANGO_STACK = ''django'', ECR_STACK = ''ecr'', ecr_repo_name = ''ocs-test-ecr-repo'',
      django_secret_key_secrets_name = ''ocs/test/django-secret-key'',
      s3_private_bucket_name = ''ocs-test-private'',
      s3_public_bucket_name = ''ocs-test-public'',
      s3_whatsapp_audio_bucket = ''ocs-test-audio'',
      region = ''us-east-1'', azure_region = ''eastus'', rds_db_name = ''ocs'',
      privacy_policy_url = '''', terms_url = '''', signup_enabled = ''False'',
      slack_bot_name = ''ocs'', taskbadger_org = '''', taskbadger_project = '''',
      get_secrets_list = xs\<rparr>"

definition sample_rds :: rds_stack where
  "sample_rds =
     \<lparr>db_instance_endpoint_hostname = ''db.internal'', db_instance_endpoint_port = ''5432'',
      db_instance_secret = ExternalSecret ''rds-credentials''\<rparr>"

definition sample_redis :: redis_stack where
  "sample_redis = \<lparr>redis_url_secret = ExternalSecret ''redis-url''\<rparr>"

definition sample_task_definition :: "secret list \<Rightarrow> FargateTaskDefinition" where
  "sample_task_definition xs =
     get_task_definition sample_rds sample_redis (fst (setup_ecr (sample_config xs)))
       (sample_config xs)"

definition sample_secrets :: "secret list" where
  "sample_secrets =
     [\<lparr>secret_name = ''openai_api_key'', managed = False\<rparr>,
      \<lparr>secret_name = ''db_password'', managed = True\<rparr>]"

definition clash_secrets :: "secret list" where
  "clash_secrets =
     [\<lparr>secret_name = ''api_key'', managed = False\<rparr>,
      \<lparr>secret_name = ''API_KEY'', managed = False\<rparr>]"

definition override_secrets :: "secret list" where
  "override_secrets = [\<lparr>secret_name = ''redis_url'', managed = False\<rparr>]"

definition shadow_secrets :: "secret list" where
  "shadow_secrets = [\<lparr>secret_name = ''secret_key'', managed = True\<rparr>]"

section \<open>Properties\<close>

subsection \<open>Dictionaries and the loop over the secrets\<close>

lemma map_fst_dict_set:
  "set (map fst (dict_set k v d)) = insert k (set (map fst d))"
  by (induction d) auto

lemma distinct_dict_set:
  "distinct (map fst d) \<Longrightarrow> distinct (map fst (dict_set k v d))"
  by (induction d) (auto simp: map_fst_dict_set[simplified])

lemma map_of_dict_set: "map_of (dict_set k v d) = (map_of d)(k \<mapsto> v)"
  by (induction d) (auto simp: fun_eq_iff)

lemma length_dict_set:
  "length (dict_set k v d) = (if k \<in> set (map fst d) then length d else Suc (length d))"
  by (induction d) auto

lemma take_dict_set: "map fst (take (length d) (dict_set k v d)) = map fst d"
  by (induction d) auto

lemma secrets_loop_filter:
  "secrets_loop xs d = secrets_loop (filter (\<lambda>s. \<not> managed s) xs) d"
  by (induction xs arbitrary: d) auto

lemma keys_secrets_loop:
  "set (map fst (secrets_loop xs d)) =
     set (map fst d) \<union> set (map (upper \<circ> secret_name) (filter (\<lambda>s. \<not> managed s) xs))"
  by (induction xs arbitrary: d) (auto simp: map_fst_dict_set[simplified])

lemma distinct_secrets_loop:
  "distinct (map fst d) \<Longrightarrow> distinct (map fst (secrets_loop xs d))"
  by (induction xs arbitrary: d) (auto simp: distinct_dict_set)

lemma map_of_secrets_loop:
  "map_of (secrets_loop xs d) k =
     (case filter (\<lambda>s. \<not> managed s \<and> upper (secret_name s) = k) xs of
        [] \<Rightarrow> map_of d k
      | y # ys \<Rightarrow> Some (by_name (last (y # ys))))"
proof (induction xs arbitrary: d)
  case Nil
  then show ?case by simp
next
  case (Cons s xs)
  show ?case
    by (cases "filter (\<lambda>s. \<not> managed s \<and> upper (secret_name s) = k) xs")
       (auto simp: Cons.IH map_of_dict_set by_name_def)
qed

lemma length_secrets_loop:
  "distinct (map fst d) \<Longrightarrow>
   length (secrets_loop xs d) =
     card (set (map fst d) \<union> set (map (upper \<circ> secret_name) (filter (\<lambda>s. \<not> managed s) xs)))"
proof -
  assume "distinct (map fst d)"
  then have "distinct (map fst (secrets_loop xs d))" by (rule distinct_secrets_loop)
  then have "card (set (map fst (secrets_loop xs d))) = length (map fst (secrets_loop xs d))"
    by (rule distinct_card)
  then show ?thesis by (simp only: keys_secrets_loop length_map)
qed

lemma prefix_secrets_loop:
  "map fst (take (length d) (secrets_loop xs d)) = map fst d"
proof (induction xs arbitrary: d)
  case Nil
  then show ?case by simp
next
  case (Cons s xs)
  show ?case
  proof (cases "managed s")
    case True
    then show ?thesis by (simp add: Cons.IH)
  next
    case False
    let ?d' = "dict_set (upper (secret_name s)) (by_name s) d"
    have "map fst (take (length ?d') (secrets_loop xs ?d')) = map fst ?d'"
      by (rule Cons.IH)
    then have "take (length d) (map fst (take (length ?d') (secrets_loop xs ?d'))) = take (length d) (map fst ?d')"
      by simp
    moreover have "length d \<le> length ?d'" by (simp add: length_dict_set)
    ultimately have "map fst (take (length d) (secrets_loop xs ?d')) = map fst (take (length d) ?d')"
      by (simp add: take_map min_def)
    then show ?thesis using False take_dict_set[of d "upper (secret_name s)" "by_name s"]
      by (simp add: by_name_def)
  qed
qed

lemma count_key:
  "distinct (map fst d) \<Longrightarrow> k \<in> set (map fst d) \<Longrightarrow> length (filter (\<lambda>p. fst p = k) d) = 1"
  by (induction d) (auto simp: filter_empty_conv image_iff)


subsection \<open>Registry\<close>

lemma lifecycle_rules_setup_ecr:
  "lifecycle_rules (fst (setup_ecr config)) =
     [\<lparr>max_image_age = Some (Duration_days 7), max_image_count = None,
       rule_priority = Some 1, rule_tag_status = Some UNTAGGED\<rparr>,
      \<lparr>max_image_age = None, max_image_count = Some 4,
       rule_priority = Some 2, rule_tag_status = Some ANY\<rparr>]"
  by (simp add: setup_ecr_def Let_def add_lifecycle_rule_def Repository_def)

text \<open>
  Claim C6. For every configuration, the repository of the registry stack has exactly two
  lifecycle rules. The first applies to untagged images and expires them by age, with a
  maximum age of 7 days (604800 seconds) and no count limit; the second applies to images
  of any tag status and expires them by count, keeping at most 4, with no age limit.
\<close>

theorem C6_registry_two_retention_rules:
  "length (lifecycle_rules (repo (EcrStack_init config))) = 2
   \<and> map rule_tag_status (lifecycle_rules (repo (EcrStack_init config)))
       = [Some UNTAGGED, Some ANY]
   \<and> map max_image_age (lifecycle_rules (repo (EcrStack_init config)))
       = [Some (Duration_days 7), None]
   \<and> map (map_option to_seconds \<circ> max_image_age) (lifecycle_rules (repo (EcrStack_init config)))
       = [Some 604800, None]
   \<and> map max_image_count (lifecycle_rules (repo (EcrStack_init config)))
       = [None, Some 4]"
proof -
  have "repo (EcrStack_init config) = fst (setup_ecr config)"
    by (simp add: EcrStack_init_def split_beta)
  then show ?thesis
    by (simp add: lifecycle_rules_setup_ecr)
qed

lemma of_char_upper_char:
  "of_char (upper_char c) =
     (if 97 \<le> (of_char c :: nat) \<and> (of_char c :: nat) \<le> 122
      then of_char c - 32 else (of_char c :: nat))"
  by (cases c) (simp add: upper_char_def)

lemma keys_builtin_secrets: "map fst (builtin_secrets rds redis k) = builtin_keys"
  by (simp add: builtin_secrets_def builtin_keys_def)

lemma distinct_builtin_keys: "distinct builtin_keys"
  by (simp add: builtin_keys_def)

lemma length_builtin_secrets: "length (builtin_secrets rds redis k) = 4"
  by (simp add: builtin_secrets_def)

subsection \<open>The task definition\<close>

lemma containers_get_task_definition:
  "containers (get_task_definition rds redis ecr_repo config) =
     [\<lparr>container_id = ''django_container'',
       props = \<lparr>image = from_ecr_repository ecr_repo ''latest'', container_name = ''migrate'',
                command = Some [''python'', ''manage.py'', ''migrate''],
                health_check = None, essential = False, port_mappings = None,
                environment = task_environment rds config,
                secrets = task_secrets rds redis config,
                logging = AwsLogDriver (make_name_default config)\<rparr>,
       container_dependencies = []\<rparr>,
      \<lparr>container_id = ''web'',
       props = \<lparr>image = from_ecr_repository ecr_repo ''latest'', container_name = ''web'',
                command = None,
                health_check = None, essential = True,
                port_mappings = Some [\<lparr>container_port = 8000\<rparr>],
                environment = task_environment rds config,
                secrets = task_secrets rds redis config,
                logging = AwsLogDriver (make_name_default config)\<rparr>,
       container_dependencies = [\<lparr>dependency_container = 0, condition = SUCCESS\<rparr>]\<rparr>]"
  by (simp add: get_task_definition_def Let_def add_container_def
      add_container_dependencies_def task_secrets_def)

lemma task_definition_FargateStack_init:
  "task_definition (fargate_service (FargateStack_init vpc ecr_repo rds redis domain config)) =
     get_task_definition rds redis ecr_repo config"
  by (simp add: FargateStack_init_def setup_fargate_service_def Let_def split_beta
      auto_scale_task_count_def)

lemma task_role_get_task_definition:
  "task_role (get_task_definition rds redis ecr_repo config) = get_task_role config"
  by (simp add: get_task_definition_def Let_def add_container_def
      add_container_dependencies_def split_beta)

lemma fargate_service_FargateStack_init:
  "fargate_service (FargateStack_init vpc ecr_repo rds redis domain config) =
     fst (setup_fargate_service vpc ecr_repo rds redis domain config)"
  by (simp add: FargateStack_init_def split_beta)

lemma secrets_of_containers:
  "c \<in> set (containers (get_task_definition rds redis ecr_repo config)) \<Longrightarrow>
   secrets (props c) = task_secrets rds redis config"
  by (auto simp: containers_get_task_definition)

lemma keys_task_secrets:
  "set (map fst (task_secrets rds redis config)) =
     set builtin_keys \<union> set (map (upper \<circ> secret_name) (unmanaged_secrets config))"
  unfolding task_secrets_def unmanaged_secrets_def
  by (simp only: keys_secrets_loop keys_builtin_secrets)

lemma distinct_task_secrets: "distinct (map fst (task_secrets rds redis config))"
  unfolding task_secrets_def
  by (rule distinct_secrets_loop) (simp only: keys_builtin_secrets distinct_builtin_keys)

lemma filter_unmanaged:
  "filter (\<lambda>s. \<not> managed s \<and> upper (secret_name s) = k) xs =
   filter (\<lambda>s. upper (secret_name s) = k) (filter (\<lambda>s. \<not> managed s) xs)"
  by (induction xs) auto

lemma map_of_task_secrets:
  "map_of (task_secrets rds redis config) k =
     (case filter (\<lambda>t. upper (secret_name t) = k) (unmanaged_secrets config) of
        [] \<Rightarrow> map_of (builtin_secrets rds redis
                 (Secret (django_secret_key_secrets_name config)
                    (django_secret_key_secrets_name config) 50)) k
      | y # ys \<Rightarrow> Some (by_name (last (y # ys))))"
  unfolding task_secrets_def unmanaged_secrets_def
  by (simp only: map_of_secrets_loop filter_unmanaged)

lemma map_of_task_secrets_unmanaged:
  assumes "s \<in> set (unmanaged_secrets config)"
  shows "map_of (task_secrets rds redis config) (upper (secret_name s)) =
     Some (by_name (last (filter (\<lambda>t. upper (secret_name t) = upper (secret_name s))
                                 (unmanaged_secrets config))))"
proof -
  from assms have "filter (\<lambda>t. upper (secret_name t) = upper (secret_name s))
      (unmanaged_secrets config) \<noteq> []"
    by (auto simp: filter_empty_conv)
  then show ?thesis
    by (simp add: map_of_task_secrets split: list.split)
qed

lemma count_task_secrets_unmanaged:
  assumes "s \<in> set (unmanaged_secrets config)"
  shows "length (filter (\<lambda>p. fst p = upper (secret_name s)) (task_secrets rds redis config)) = 1"
proof (rule count_key)
  show "distinct (map fst (task_secrets rds redis config))" by (rule distinct_task_secrets)
  from assms show "upper (secret_name s) \<in> set (map fst (task_secrets rds redis config))"
    by (simp only: keys_task_secrets) simp
qed

lemma task_secrets_ignores_managed:
  "task_secrets rds redis (config\<lparr>get_secrets_list := unmanaged_secrets config\<rparr>) =
   task_secrets rds redis config"
  by (simp add: task_secrets_def unmanaged_secrets_def secrets_loop_filter[symmetric])

lemma map_of_task_secrets_absent:
  assumes "k \<notin> set builtin_keys"
    and "k \<notin> set (map (upper \<circ> secret_name) (unmanaged_secrets config))"
  shows "map_of (task_secrets rds redis config) k = None"
proof -
  have "k \<notin> set (map fst (task_secrets rds redis config))"
    using assms by (simp only: keys_task_secrets) simp
  then show ?thesis by (simp add: map_of_eq_None_iff)
qed

lemmas sample_eval =
  sample_task_definition_def containers_get_task_definition task_secrets_def
  builtin_secrets_def sample_config_def sample_rds_def sample_redis_def
  unmanaged_secrets_def builtin_keys_def by_name_def upper_def upper_char_def

text \<open>
  Claim C1. For every input, the task definition of the service has exactly two containers,
  in this order: the container named \<^verbatim>\<open>migrate\<close>, which is not essential, and the container
  named \<^verbatim>\<open>web\<close>, which is essential. The migration container declares no dependency. The
  web container declares exactly one dependency; it points to the migration container and
  its condition is \<^verbatim>\<open>SUCCESS\<close>, which is neither \<^verbatim>\<open>START\<close> nor \<^verbatim>\<open>COMPLETE\<close>.
\<close>

theorem C1_two_containers_gated:
  "length (containers (task_definition (fargate_service
       (FargateStack_init vpc ecr_repo rds redis domain config)))) = 2
   \<and> map (container_name \<circ> props) (containers (task_definition (fargate_service
       (FargateStack_init vpc ecr_repo rds redis domain config)))) = [''migrate'', ''web'']
   \<and> map (essential \<circ> props) (containers (task_definition (fargate_service
       (FargateStack_init vpc ecr_repo rds redis domain config)))) = [False, True]
   \<and> map container_dependencies (containers (task_definition (fargate_service
       (FargateStack_init vpc ecr_repo rds redis domain config))))
       = [[], [\<lparr>dependency_container = 0, condition = SUCCESS\<rparr>]]
   \<and> map (map (\<lambda>d. (container_name (props (containers (task_definition (fargate_service
                        (FargateStack_init vpc ecr_repo rds redis domain config)))
                          ! dependency_container d)),
                     condition d))
          \<circ> container_dependencies)
         (containers (task_definition (fargate_service
            (FargateStack_init vpc ecr_repo rds redis domain config))))
       = [[], [(''migrate'', SUCCESS)]]
   \<and> SUCCESS \<noteq> START \<and> SUCCESS \<noteq> COMPLETE"
  by (simp add: task_definition_FargateStack_init containers_get_task_definition)

text \<open>
  Claim C2. For every configuration, the task role has one policy statement, and the
  \<^verbatim>\<open>resources\<close> list of that statement has exactly one element: the three bucket patterns
  joined without a separator. It is not the list of the three patterns.
\<close>

theorem C2_s3_resources_single_string:
  "map resources (role_policy (task_role (get_task_definition rds redis ecr_repo config))) =
     [[''arn:aws:s3:::'' @ s3_private_bucket_name config @ ''/*arn:aws:s3:::''
        @ s3_public_bucket_name config @ ''/*arn:aws:s3:::''
        @ s3_whatsapp_audio_bucket config @ ''/*'']]
   \<and> map (length \<circ> resources)
         (role_policy (task_role (get_task_definition rds redis ecr_repo config))) = [1]
   \<and> map resources (role_policy (task_role (get_task_definition rds redis ecr_repo config))) \<noteq>
     [[''arn:aws:s3:::'' @ s3_private_bucket_name config @ ''/*'',
       ''arn:aws:s3:::'' @ s3_public_bucket_name config @ ''/*'',
       ''arn:aws:s3:::'' @ s3_whatsapp_audio_bucket config @ ''/*'']]"
  by (simp add: task_role_get_task_definition get_task_role_def Let_def add_to_policy_def
      PolicyStatement_def)

lemma by_name_last_own:
  assumes u: "s \<in> set (unmanaged_secrets config)"
    and own: "\<forall>t \<in> set (unmanaged_secrets config).
                upper (secret_name t) = upper (secret_name s) \<longrightarrow> secret_name t = secret_name s"
  shows "by_name (last (filter (\<lambda>t. upper (secret_name t) = upper (secret_name s))
                               (unmanaged_secrets config))) = by_name s"
proof -
  let ?ys = "filter (\<lambda>t. upper (secret_name t) = upper (secret_name s)) (unmanaged_secrets config)"
  from u have "?ys \<noteq> []" by (auto simp: filter_empty_conv)
  then have "last ?ys \<in> set ?ys" by (rule last_in_set)
  with own have "secret_name (last ?ys) = secret_name s" by simp
  then show ?thesis by (simp add: by_name_def)
qed

text \<open>
  Claim C4, amended. Let \<open>c\<close> be a container of the task definition and \<open>s\<close> a secret of
  the configuration's list. If \<open>s\<close> is unmanaged, the secrets dictionary of \<open>c\<close> has exactly
  one entry under the uppercased name of \<open>s\<close>; its value is the lookup by name of the last
  unmanaged secret of the list with that uppercased name, which is the lookup of \<open>s\<close>
  itself when every unmanaged secret with that uppercased name has the name of \<open>s\<close>. A
  managed secret adds no entry: the dictionary is the one computed from the list without
  the managed secrets, and under the uppercased name of a managed secret there is no entry
  when that key is neither a built-in key nor the uppercased name of an unmanaged secret.
\<close>

theorem C4_unmanaged_secret_references:
  "\<forall>c \<in> set (containers (get_task_definition rds redis ecr_repo config)).
     (\<forall>s \<in> set (get_secrets_list config).
        (\<not> managed s \<longrightarrow>
           length (filter (\<lambda>p. fst p = upper (secret_name s)) (secrets (props c))) = 1
           \<and> map_of (secrets (props c)) (upper (secret_name s)) =
               Some (by_name (last (filter (\<lambda>t. upper (secret_name t) = upper (secret_name s))
                                           (unmanaged_secrets config)))))
        \<and> (\<not> managed s
             \<and> (\<forall>t \<in> set (unmanaged_secrets config).
                   upper (secret_name t) = upper (secret_name s)
                   \<longrightarrow> secret_name t = secret_name s)
           \<longrightarrow> map_of (secrets (props c)) (upper (secret_name s)) = Some (by_name s))
        \<and> (managed s \<and> upper (secret_name s) \<notin> set builtin_keys
             \<and> upper (secret_name s) \<notin> set (map (upper \<circ> secret_name) (unmanaged_secrets config))
           \<longrightarrow> map_of (secrets (props c)) (upper (secret_name s)) = None))
     \<and> secrets (props c) =
         task_secrets rds redis (config\<lparr>get_secrets_list := unmanaged_secrets config\<rparr>)"
proof (intro ballI conjI impI)
  fix c s
  assume c: "c \<in> set (containers (get_task_definition rds redis ecr_repo config))"
    and s: "s \<in> set (get_secrets_list config)"
  note eq = secrets_of_containers [OF c]
  have u: "s \<in> set (unmanaged_secrets config)" if "\<not> managed s"
    using s that by (simp add: unmanaged_secrets_def)
  show "length (filter (\<lambda>p. fst p = upper (secret_name s)) (secrets (props c))) = 1"
    if "\<not> managed s"
    unfolding eq by (rule count_task_secrets_unmanaged [OF u [OF that]])
  show "map_of (secrets (props c)) (upper (secret_name s)) =
               Some (by_name (last (filter (\<lambda>t. upper (secret_name t) = upper (secret_name s))
                                           (unmanaged_secrets config))))"
    if "\<not> managed s"
    unfolding eq by (rule map_of_task_secrets_unmanaged [OF u [OF that]])
  show "map_of (secrets (props c)) (upper (secret_name s)) = Some (by_name s)"
    if h: "\<not> managed s
             \<and> (\<forall>t \<in> set (unmanaged_secrets config).
                   upper (secret_name t) = upper (secret_name s)
                   \<longrightarrow> secret_name t = secret_name s)"
  proof -
    from h have m: "\<not> managed s" by simp
    from h have own: "\<forall>t \<in> set (unmanaged_secrets config).
                   upper (secret_name t) = upper (secret_name s)
                   \<longrightarrow> secret_name t = secret_name s" by simp
    show ?thesis
      unfolding eq
      by (simp only: map_of_task_secrets_unmanaged [OF u [OF m]]
            by_name_last_own [OF u [OF m] own])
  qed
  show "map_of (secrets (props c)) (upper (secret_name s)) = None"
    if "managed s \<and> upper (secret_name s) \<notin> set builtin_keys
             \<and> upper (secret_name s) \<notin> set (map (upper \<circ> secret_name) (unmanaged_secrets config))"
    unfolding eq using that by (intro map_of_task_secrets_absent) simp_all
next
  fix c
  assume c: "c \<in> set (containers (get_task_definition rds redis ecr_repo config))"
  show "secrets (props c) =
         task_secrets rds redis (config\<lparr>get_secrets_list := unmanaged_secrets config\<rparr>)"
    by (simp only: secrets_of_containers [OF c] task_secrets_ignores_managed)
qed

text \<open>
  The theorem at the web container of the sample configuration, for its unmanaged secret
  \<^verbatim>\<open>openai_api_key\<close>, the only one with its uppercased name, and its managed secret
  \<^verbatim>\<open>db_password\<close>.
\<close>

theorem C4_unmanaged_secret_references_witness:
  "containers (sample_task_definition sample_secrets) ! 1
     \<in> set (containers (sample_task_definition sample_secrets))
   \<and> \<lparr>secret_name = ''openai_api_key'', managed = False\<rparr>
        \<in> set (get_secrets_list (sample_config sample_secrets))
   \<and> \<lparr>secret_name = ''db_password'', managed = True\<rparr>
        \<in> set (get_secrets_list (sample_config sample_secrets))
   \<and> map secret_name (unmanaged_secrets (sample_config sample_secrets)) = [''openai_api_key'']
   \<and> upper ''db_password'' \<notin> set builtin_keys
   \<and> upper ''db_password''
        \<notin> set (map (upper \<circ> secret_name) (unmanaged_secrets (sample_config sample_secrets)))
   \<and> length (filter (\<lambda>p. fst p = ''OPENAI_API_KEY'')
        (secrets (props (containers (sample_task_definition sample_secrets) ! 1)))) = 1
   \<and> map_of (secrets (props (containers (sample_task_definition sample_secrets) ! 1)))
        ''OPENAI_API_KEY'' =
      Some (from_secrets_manager (from_secret_name_v2 ''openai_api_key'' ''openai_api_key'') None)
   \<and> map_of (secrets (props (containers (sample_task_definition sample_secrets) ! 1)))
        ''DB_PASSWORD'' = None"
proof -
  have c: "containers (sample_task_definition sample_secrets) ! 1
     \<in> set (containers (sample_task_definition sample_secrets))"
    by (simp add: sample_task_definition_def containers_get_task_definition)
  have s1: "\<lparr>secret_name = ''openai_api_key'', managed = False\<rparr>
        \<in> set (get_secrets_list (sample_config sample_secrets))"
    and s2: "\<lparr>secret_name = ''db_password'', managed = True\<rparr>
        \<in> set (get_secrets_list (sample_config sample_secrets))"
    by (simp_all add: sample_config_def sample_secrets_def)
  have u1: "upper ''openai_api_key'' = ''OPENAI_API_KEY''"
    and u2: "upper ''db_password'' = ''DB_PASSWORD''"
    by (simp_all add: upper_def upper_char_def)
  have own: "\<forall>t \<in> set (unmanaged_secrets (sample_config sample_secrets)).
         upper (secret_name t) = upper ''openai_api_key''
         \<longrightarrow> secret_name t = ''openai_api_key''"
    by (simp add: unmanaged_secrets_def sample_config_def sample_secrets_def)
  have n: "map secret_name (unmanaged_secrets (sample_config sample_secrets))
             = [''openai_api_key'']"
    by (simp add: unmanaged_secrets_def sample_config_def sample_secrets_def)
  have h: "upper ''db_password'' \<notin> set builtin_keys
   \<and> upper ''db_password''
        \<notin> set (map (upper \<circ> secret_name) (unmanaged_secrets (sample_config sample_secrets)))"
    by (simp add: u1 u2 builtin_keys_def unmanaged_secrets_def sample_config_def
        sample_secrets_def)
  from C4_unmanaged_secret_references
         [of sample_rds sample_redis "fst (setup_ecr (sample_config sample_secrets))"
             "sample_config sample_secrets"]
  have "\<forall>c \<in> set (containers (sample_task_definition sample_secrets)).
     (\<forall>s \<in> set (get_secrets_list (sample_config sample_secrets)).
        (\<not> managed s \<longrightarrow>
           length (filter (\<lambda>p. fst p = upper (secret_name s)) (secrets (props c))) = 1)
        \<and> (\<not> managed s
             \<and> (\<forall>t \<in> set (unmanaged_secrets (sample_config sample_secrets)).
                   upper (secret_name t) = upper (secret_name s)
                   \<longrightarrow> secret_name t = secret_name s)
           \<longrightarrow> map_of (secrets (props c)) (upper (secret_name s)) = Some (by_name s))
        \<and> (managed s \<and> upper (secret_name s) \<notin> set builtin_keys
             \<and> upper (secret_name s) \<notin> set (map (upper \<circ> secret_name)
                   (unmanaged_secrets (sample_config sample_secrets)))
           \<longrightarrow> map_of (secrets (props c)) (upper (secret_name s)) = None))"
    unfolding sample_task_definition_def by blast
  from this [rule_format, OF c s1] this [rule_format, OF c s2] h own
  have "length (filter (\<lambda>p. fst p = ''OPENAI_API_KEY'')
        (secrets (props (containers (sample_task_definition sample_secrets) ! 1)))) = 1
   \<and> map_of (secrets (props (containers (sample_task_definition sample_secrets) ! 1)))
        ''OPENAI_API_KEY'' =
      Some (from_secrets_manager (from_secret_name_v2 ''openai_api_key'' ''openai_api_key'') None)
   \<and> map_of (secrets (props (containers (sample_task_definition sample_secrets) ! 1)))
        ''DB_PASSWORD'' = None"
    by (simp add: u1 u2 by_name_def)
  with c s1 s2 h n show ?thesis by blast
qed

text \<open>
  Claim C4 as stated fails in both halves. Of the unmanaged secrets \<^verbatim>\<open>api_key\<close> and
  \<^verbatim>\<open>API_KEY\<close> the first has no reference of its own: the entry under \<^verbatim>\<open>API_KEY\<close> is
  the lookup of the second, and the lookup of \<^verbatim>\<open>api_key\<close> is no value of the dictionary.
  For the managed secret \<^verbatim>\<open>secret_key\<close> the dictionary has an entry under
  \<^verbatim>\<open>SECRET_KEY\<close>, the built-in reference to the generated key.
\<close>

theorem C4_unmanaged_secret_references_counterexample:
  "\<lparr>secret_name = ''api_key'', managed = False\<rparr>
      \<in> set (get_secrets_list (sample_config clash_secrets))
   \<and> map_of (secrets (props (containers (sample_task_definition clash_secrets) ! 1)))
        (upper ''api_key'') =
      Some (from_secrets_manager (from_secret_name_v2 ''API_KEY'' ''API_KEY'') None)
   \<and> from_secrets_manager (from_secret_name_v2 ''api_key'' ''api_key'') None
      \<notin> snd ` set (secrets (props (containers (sample_task_definition clash_secrets) ! 1)))
   \<and> \<lparr>secret_name = ''secret_key'', managed = True\<rparr>
      \<in> set (get_secrets_list (sample_config shadow_secrets))
   \<and> map_of (secrets (props (containers (sample_task_definition shadow_secrets) ! 1)))
        (upper ''secret_key'') =
      Some (from_secrets_manager
              (Secret ''ocs/test/django-secret-key'' ''ocs/test/django-secret-key'' 50) None)"
  by (simp add: clash_secrets_def shadow_secrets_def sample_eval)

text \<open>
  Claim C7. For every input, the service is declared with cpu 256, a memory limit of 512
  MiB and a desired count of 1; its scaling has minimum capacity 1 and maximum capacity 2,
  so that minimum \<open>\<le>\<close> desired \<open>\<le>\<close> maximum, and one CPU utilization policy with a target
  of 70 percent and cooldowns of 60 seconds for scaling in and for scaling out.
\<close>

theorem C7_service_sizing_and_scaling:
  "cpu (fargate_service (FargateStack_init vpc ecr_repo rds redis domain config)) = 256
   \<and> memory_limit_mib (fargate_service (FargateStack_init vpc ecr_repo rds redis domain config))
       = 512
   \<and> desired_count (fargate_service (FargateStack_init vpc ecr_repo rds redis domain config)) = 1
   \<and> scaling (fargate_service (FargateStack_init vpc ecr_repo rds redis domain config)) =
       Some \<lparr>max_capacity = 2, min_capacity = 1,
             cpu_utilization_scaling =
               [\<lparr>scaling_policy_id = make_name config ''CpuScaling'',
                 target_utilization_percent = 70,
                 scale_in_cooldown = Duration_seconds 60,
                 scale_out_cooldown = Duration_seconds 60\<rparr>]\<rparr>
   \<and> (\<exists>sc. scaling (fargate_service (FargateStack_init vpc ecr_repo rds redis domain config))
               = Some sc
          \<and> min_capacity sc
               \<le> desired_count (fargate_service
                     (FargateStack_init vpc ecr_repo rds redis domain config))
          \<and> desired_count (fargate_service
                 (FargateStack_init vpc ecr_repo rds redis domain config))
               \<le> max_capacity sc
          \<and> map target_utilization_percent (cpu_utilization_scaling sc) = [70]
          \<and> map (to_seconds \<circ> scale_in_cooldown) (cpu_utilization_scaling sc) = [60]
          \<and> map (to_seconds \<circ> scale_out_cooldown) (cpu_utilization_scaling sc) = [60])"
  by (simp add: fargate_service_FargateStack_init setup_fargate_service_def Let_def
      auto_scale_task_count_def scale_on_cpu_utilization_def)

text \<open>
  Claim C8, amended. Let \<open>c\<close> be a container of the task definition. When no unmanaged
  secret has an uppercased name equal to a built-in key, the secrets dictionary of \<open>c\<close> has
  4 entries plus one for each distinct uppercased name of an unmanaged secret; when, in
  addition, the uppercased names of the unmanaged secrets are pairwise distinct, these are 4
  plus the number of unmanaged secrets. When the uppercased name of an unmanaged secret is
  a built-in key, the single entry under that key holds the lookup by name of the last
  unmanaged secret with that uppercased name, in place of the built-in reference. In every
  case the first four keys are the built-in keys.
\<close>

theorem C8_secret_count:
  "\<forall>c \<in> set (containers (get_task_definition rds redis ecr_repo config)).
     (no_builtin_clash config \<longrightarrow>
        length (secrets (props c)) =
          4 + card (set (map (upper \<circ> secret_name) (unmanaged_secrets config))))
     \<and> (no_builtin_clash config
          \<and> distinct (map (upper \<circ> secret_name) (unmanaged_secrets config)) \<longrightarrow>
        length (secrets (props c)) = 4 + length (unmanaged_secrets config))
     \<and> (\<forall>s \<in> set (unmanaged_secrets config).
          upper (secret_name s) \<in> set builtin_keys \<longrightarrow>
            map_of (secrets (props c)) (upper (secret_name s)) =
              Some (by_name (last (filter (\<lambda>t. upper (secret_name t) = upper (secret_name s))
                                          (unmanaged_secrets config))))
            \<and> length (filter (\<lambda>p. fst p = upper (secret_name s)) (secrets (props c))) = 1)
     \<and> map fst (take 4 (secrets (props c))) = builtin_keys"
proof (intro ballI conjI impI)
  fix c
  assume c: "c \<in> set (containers (get_task_definition rds redis ecr_repo config))"
  note eq = secrets_of_containers [OF c]
  let ?U = "set (map (upper \<circ> secret_name) (unmanaged_secrets config))"
  have len: "length (task_secrets rds redis config) = card (set builtin_keys \<union> ?U)"
    unfolding task_secrets_def unmanaged_secrets_def
    by (subst length_secrets_loop)
       (simp_all only: keys_builtin_secrets distinct_builtin_keys)
  have card4: "card (set builtin_keys) = 4"
    using distinct_card [OF distinct_builtin_keys] by (simp add: builtin_keys_def)
  have disj: "length (task_secrets rds redis config) = 4 + card ?U" if "no_builtin_clash config"
  proof -
    from that have "set builtin_keys \<inter> ?U = {}"
      by (auto simp: no_builtin_clash_def)
    then have "card (set builtin_keys \<union> ?U) = card (set builtin_keys) + card ?U"
      by (intro card_Un_disjoint) simp_all
    with len card4 show ?thesis by simp
  qed
  show "length (secrets (props c)) = 4 + card ?U" if "no_builtin_clash config"
    unfolding eq using that by (rule disj)
  show "length (secrets (props c)) = 4 + length (unmanaged_secrets config)"
    if "no_builtin_clash config
          \<and> distinct (map (upper \<circ> secret_name) (unmanaged_secrets config))"
  proof -
    from that have "card ?U = length (unmanaged_secrets config)"
      using distinct_card [of "map (upper \<circ> secret_name) (unmanaged_secrets config)"] by simp
    with disj that show ?thesis unfolding eq by simp
  qed
  show "map fst (take 4 (secrets (props c))) = builtin_keys"
    unfolding eq task_secrets_def
    using prefix_secrets_loop [of "builtin_secrets rds redis
       (Secret (django_secret_key_secrets_name config) (django_secret_key_secrets_name config) 50)"
       "get_secrets_list config"]
    by (simp only: length_builtin_secrets keys_builtin_secrets)
next
  fix c s
  assume c: "c \<in> set (containers (get_task_definition rds redis ecr_repo config))"
    and s: "s \<in> set (unmanaged_secrets config)"
  note eq = secrets_of_containers [OF c]
  show "map_of (secrets (props c)) (upper (secret_name s)) =
              Some (by_name (last (filter (\<lambda>t. upper (secret_name t) = upper (secret_name s))
                                          (unmanaged_secrets config))))"
    unfolding eq by (rule map_of_task_secrets_unmanaged [OF s])
  show "length (filter (\<lambda>p. fst p = upper (secret_name s)) (secrets (props c))) = 1"
    unfolding eq by (rule count_task_secrets_unmanaged [OF s])
qed

text \<open>
  The theorem at the sample inputs: one unmanaged and one managed secret give 5 entries;
  the unmanaged secret \<^verbatim>\<open>redis_url\<close> replaces the reference under \<^verbatim>\<open>REDIS_URL\<close>.
\<close>

theorem C8_secret_count_witness:
  "containers (sample_task_definition sample_secrets) ! 1
     \<in> set (containers (sample_task_definition sample_secrets))
   \<and> no_builtin_clash (sample_config sample_secrets)
   \<and> distinct (map (upper \<circ> secret_name) (unmanaged_secrets (sample_config sample_secrets)))
   \<and> length (unmanaged_secrets (sample_config sample_secrets)) = 1
   \<and> length (secrets (props (containers (sample_task_definition sample_secrets) ! 1))) = 5
   \<and> containers (sample_task_definition override_secrets) ! 1
     \<in> set (containers (sample_task_definition override_secrets))
   \<and> \<lparr>secret_name = ''redis_url'', managed = False\<rparr>
        \<in> set (unmanaged_secrets (sample_config override_secrets))
   \<and> upper ''redis_url'' \<in> set builtin_keys
   \<and> map_of (secrets (props (containers (sample_task_definition override_secrets) ! 1)))
        ''REDIS_URL'' =
      Some (from_secrets_manager (from_secret_name_v2 ''redis_url'' ''redis_url'') None)
   \<and> map fst (take 4 (secrets (props (containers (sample_task_definition override_secrets) ! 1))))
      = builtin_keys"
proof -
  have c1: "containers (sample_task_definition sample_secrets) ! 1
     \<in> set (containers (sample_task_definition sample_secrets))"
    and c2: "containers (sample_task_definition override_secrets) ! 1
     \<in> set (containers (sample_task_definition override_secrets))"
    by (simp_all add: sample_task_definition_def containers_get_task_definition)
  have u: "upper ''openai_api_key'' = ''OPENAI_API_KEY''" "upper ''redis_url'' = ''REDIS_URL''"
    by (simp_all add: upper_def upper_char_def)
  have h1: "no_builtin_clash (sample_config sample_secrets)
   \<and> distinct (map (upper \<circ> secret_name) (unmanaged_secrets (sample_config sample_secrets)))"
    and n1: "length (unmanaged_secrets (sample_config sample_secrets)) = 1"
    by (simp_all add: u no_builtin_clash_def builtin_keys_def unmanaged_secrets_def
        sample_config_def sample_secrets_def)
  have s2: "\<lparr>secret_name = ''redis_url'', managed = False\<rparr>
        \<in> set (unmanaged_secrets (sample_config override_secrets))"
    and k2: "upper ''redis_url'' \<in> set builtin_keys"
    and l2: "by_name (last (filter (\<lambda>t. upper (secret_name t) = ''REDIS_URL'')
               (unmanaged_secrets (sample_config override_secrets)))) =
         from_secrets_manager (from_secret_name_v2 ''redis_url'' ''redis_url'') None"
    by (simp_all add: u builtin_keys_def unmanaged_secrets_def sample_config_def
        override_secrets_def by_name_def)
  note t1 = C8_secret_count
         [of sample_rds sample_redis "fst (setup_ecr (sample_config sample_secrets))"
             "sample_config sample_secrets", folded sample_task_definition_def,
          rule_format, OF c1]
  note t2 = C8_secret_count
         [of sample_rds sample_redis "fst (setup_ecr (sample_config override_secrets))"
             "sample_config override_secrets", folded sample_task_definition_def,
          rule_format, OF c2]
  from t1 h1 n1
  have a: "length (secrets (props (containers (sample_task_definition sample_secrets) ! 1))) = 5"
    by simp
  from t2 have q: "\<forall>s \<in> set (unmanaged_secrets (sample_config override_secrets)).
          upper (secret_name s) \<in> set builtin_keys \<longrightarrow>
            map_of (secrets (props (containers (sample_task_definition override_secrets) ! 1)))
                (upper (secret_name s)) =
              Some (by_name (last (filter (\<lambda>t. upper (secret_name t) = upper (secret_name s))
                                          (unmanaged_secrets (sample_config override_secrets)))))
            \<and> length (filter (\<lambda>p. fst p = upper (secret_name s))
                 (secrets (props (containers (sample_task_definition override_secrets) ! 1)))) = 1"
    and p: "map fst (take 4 (secrets (props (containers (sample_task_definition override_secrets) ! 1))))
      = builtin_keys"
    by blast+
  from q [rule_format, OF s2] p k2 l2
  have b: "map_of (secrets (props (containers (sample_task_definition override_secrets) ! 1)))
        ''REDIS_URL'' =
      Some (from_secrets_manager (from_secret_name_v2 ''redis_url'' ''redis_url'') None)
   \<and> map fst (take 4 (secrets (props (containers (sample_task_definition override_secrets) ! 1))))
      = builtin_keys"
    by (simp add: u)
  from c1 c2 h1 n1 s2 k2 a b show ?thesis by blast
qed

text \<open>
  Claim C8 as stated fails for two unmanaged secrets whose names differ only in case:
  \<^verbatim>\<open>api_key\<close> and \<^verbatim>\<open>API_KEY\<close> share the key \<^verbatim>\<open>API_KEY\<close>, neither is a built-in key, and
  the dictionary has 5 entries, not 4 + 2.
\<close>

theorem C8_secret_count_counterexample:
  "no_builtin_clash (sample_config clash_secrets)
   \<and> length (unmanaged_secrets (sample_config clash_secrets)) = 2
   \<and> length (secrets (props (containers (sample_task_definition clash_secrets) ! 1))) = 5
   \<and> length (secrets (props (containers (sample_task_definition clash_secrets) ! 1)))
       \<noteq> 4 + length (unmanaged_secrets (sample_config clash_secrets))"
  by (simp add: no_builtin_clash_def clash_secrets_def sample_eval)

text \<open>
  Claim C10. For every input, the migration container and the web container are declared
  with the same image, the repository image at tag \<^verbatim>\<open>latest\<close>, the same environment, the
  same secrets and the same log driver. The options of the web container are those of the
  migration container with the name, the command, the essential flag and the port mappings
  replaced, and each of these four differs between the two.
\<close>

theorem C10_containers_share_configuration:
  "map (image \<circ> props) (containers (get_task_definition rds redis ecr_repo config)) =
     [from_ecr_repository ecr_repo ''latest'', from_ecr_repository ecr_repo ''latest'']
   \<and> environment (props (containers (get_task_definition rds redis ecr_repo config) ! 0)) =
     environment (props (containers (get_task_definition rds redis ecr_repo config) ! 1))
   \<and> secrets (props (containers (get_task_definition rds redis ecr_repo config) ! 0)) =
     secrets (props (containers (get_task_definition rds redis ecr_repo config) ! 1))
   \<and> logging (props (containers (get_task_definition rds redis ecr_repo config) ! 0)) =
     logging (props (containers (get_task_definition rds redis ecr_repo config) ! 1))
   \<and> props (containers (get_task_definition rds redis ecr_repo config) ! 1) =
     (props (containers (get_task_definition rds redis ecr_repo config) ! 0))
       \<lparr>container_name := ''web'', command := None, essential := True,
        port_mappings := Some [\<lparr>container_port = 8000\<rparr>]\<rparr>
   \<and> container_name (props (containers (get_task_definition rds redis ecr_repo config) ! 0)) \<noteq>
     container_name (props (containers (get_task_definition rds redis ecr_repo config) ! 1))
   \<and> command (props (containers (get_task_definition rds redis ecr_repo config) ! 0)) \<noteq>
     command (props (containers (get_task_definition rds redis ecr_repo config) ! 1))
   \<and> essential (props (containers (get_task_definition rds redis ecr_repo config) ! 0)) \<noteq>
     essential (props (containers (get_task_definition rds redis ecr_repo config) ! 1))
   \<and> port_mappings (props (containers (get_task_definition rds redis ecr_repo config) ! 0)) \<noteq>
     port_mappings (props (containers (get_task_definition rds redis ecr_repo config) ! 1))"
  by (simp add: containers_get_task_definition)

subsection \<open>The firewall\<close>

lemma rules_WAFStack_init:
  "rules (web_acl (WAFStack_init config load_balancer_arn)) =
     [\<lparr>rule_name = ''AWSManagedCommonRuleSet'', priority = 0,
       statement =
         \<lparr>managed_rule_group_statement =
            Some \<lparr>vendor_name = ''AWS'', rule_group_name = ''AWSManagedRulesCommonRuleSet''\<rparr>,
          rate_based_statement = None\<rparr>,
       rule_action = None,
       override_action = Some \<lparr>override_count = Some (), override_none = None\<rparr>,
       rule_visibility_config =
         \<lparr>cloud_watch_metrics_enabled = True,
          metric_name = make_name config ''CommonRuleSetMetrics'',
          sampled_requests_enabled = True\<rparr>\<rparr>,
      \<lparr>rule_name = ''RateLimitRule'', priority = 1,
       statement =
         \<lparr>managed_rule_group_statement = None,
          rate_based_statement = Some \<lparr>limit = 2000, aggregate_key_type = ''IP''\<rparr>\<rparr>,
       rule_action =
         Some \<lparr>action_allow = None, action_block = None, action_captcha = None,
               action_challenge = None, action_count = Some ()\<rparr>,
       override_action = None,
       rule_visibility_config =
         \<lparr>cloud_watch_metrics_enabled = True,
          metric_name = make_name config ''RateLimitMetrics'',
          sampled_requests_enabled = True\<rparr>\<rparr>]"
  by (simp add: WAFStack_init_def Let_def)

lemma log_group_WAFStack_init:
  "waf_log_group (WAFStack_init config load_balancer_arn) =
     \<lparr>log_group_id = ''WAFLogGroup'',
      log_group_name = ''aws-waf-logs-'' @ make_name config ''waf-logs'',
      retention = TWO_YEARS, log_group_removal_policy = RETAIN,
      resource_policy =
        Some [\<lparr>actions = [''logs:CreateLogStream'', ''logs:PutLogEvents''],
               statement_effect = ALLOW,
               principals = [ServicePrincipal ''wafv2.amazonaws.com''],
               resources = [''WAFLogGroup.Arn'']\<rparr>]\<rparr>"
  by (simp add: WAFStack_init_def Let_def add_to_resource_policy_def PolicyStatement_def
      log_group_arn_def)

lemma logging_config_WAFStack_init:
  "node_dependencies (waf_logging_config (WAFStack_init config load_balancer_arn)) =
     [''WAFLogGroup'']"
  by (simp add: WAFStack_init_def Let_def add_dependency_def add_to_resource_policy_def)

text \<open>
  Claim C3. For every configuration and load balancer, the log group of the firewall stack
  has a retention of two years; its resource policy exists and consists of one statement
  that allows the service principal \<^verbatim>\<open>wafv2.amazonaws.com\<close> the actions
  \<^verbatim>\<open>logs:CreateLogStream\<close> and \<^verbatim>\<open>logs:PutLogEvents\<close> on the log group; the logging
  configuration depends on the log-group construct, and in the synthesized template this is
  a dependency on the log group and on its resource policy. The edge does not depend on
  the order of the calls: for any log group, statement and logging configuration, once the
  statement has been attached and the dependency declared, the edges of the logging
  configuration include the policy.
\<close>

theorem C3_log_policy_before_logging:
  "retention (waf_log_group (WAFStack_init config load_balancer_arn)) = TWO_YEARS
   \<and> resource_policy (waf_log_group (WAFStack_init config load_balancer_arn)) =
       Some [\<lparr>actions = [''logs:CreateLogStream'', ''logs:PutLogEvents''],
              statement_effect = ALLOW,
              principals = [ServicePrincipal ''wafv2.amazonaws.com''],
              resources = [log_group_arn (waf_log_group (WAFStack_init config load_balancer_arn))]\<rparr>]
   \<and> node_dependencies (waf_logging_config (WAFStack_init config load_balancer_arn)) =
       [log_group_id (waf_log_group (WAFStack_init config load_balancer_arn))]
   \<and> depends_on (waf_log_group (WAFStack_init config load_balancer_arn))
         (waf_logging_config (WAFStack_init config load_balancer_arn)) =
       [log_group_resource (waf_log_group (WAFStack_init config load_balancer_arn)),
        log_group_policy_resource (waf_log_group (WAFStack_init config load_balancer_arn))]
   \<and> depends_on (add_to_resource_policy st lg) (add_dependency (log_group_id lg) lc) =
       depends_on (add_to_resource_policy st lg) lc
       @ [log_group_resource lg, log_group_policy_resource lg]"
proof -
  have "depends_on (add_to_resource_policy st lg) (add_dependency (log_group_id lg) lc) =
       depends_on (add_to_resource_policy st lg) lc
       @ [log_group_resource lg, log_group_policy_resource lg]"
    by (simp add: depends_on_def add_dependency_def add_to_resource_policy_def
        construct_resources_def log_group_resource_def log_group_policy_resource_def)
  then show ?thesis
    by (simp add: log_group_WAFStack_init logging_config_WAFStack_init depends_on_def
        construct_resources_def log_group_arn_def)
qed

text \<open>
  Claim C5. For every configuration and load balancer, the web ACL has exactly two rules.
  The rule of priority 0 is the managed rule group of vendor \<^verbatim>\<open>AWS\<close> named
  \<^verbatim>\<open>AWSManagedRulesCommonRuleSet\<close> with the override action \<^verbatim>\<open>count\<close> and no action of
  its own; the rule of priority 1 is the rate-based statement with limit 2000 aggregated by
  \<^verbatim>\<open>IP\<close> with the action \<^verbatim>\<open>count\<close>. Neither rule specifies a blocking action.
\<close>

theorem C5_two_count_rules:
  "length (rules (web_acl (WAFStack_init config load_balancer_arn))) = 2
   \<and> map priority (rules (web_acl (WAFStack_init config load_balancer_arn))) = [0, 1]
   \<and> map statement (rules (web_acl (WAFStack_init config load_balancer_arn))) =
       [\<lparr>managed_rule_group_statement =
           Some \<lparr>vendor_name = ''AWS'', rule_group_name = ''AWSManagedRulesCommonRuleSet''\<rparr>,
         rate_based_statement = None\<rparr>,
        \<lparr>managed_rule_group_statement = None,
         rate_based_statement = Some \<lparr>limit = 2000, aggregate_key_type = ''IP''\<rparr>\<rparr>]
   \<and> map override_action (rules (web_acl (WAFStack_init config load_balancer_arn))) =
       [Some \<lparr>override_count = Some (), override_none = None\<rparr>, None]
   \<and> map rule_action (rules (web_acl (WAFStack_init config load_balancer_arn))) =
       [None,
        Some \<lparr>action_allow = None, action_block = None, action_captcha = None,
              action_challenge = None, action_count = Some ()\<rparr>]
   \<and> map specifies_block (rules (web_acl (WAFStack_init config load_balancer_arn))) =
       [False, False]"
  by (simp add: rules_WAFStack_init specifies_block_def)

text \<open>
  Claim C9. For every configuration and load balancer, the default action of the web ACL is
  \<^verbatim>\<open>allow\<close> and not \<^verbatim>\<open>block\<close>, and every rule of the web ACL only counts and specifies no
  blocking action.
\<close>

theorem C9_no_blocking_action:
  "default_action (web_acl (WAFStack_init config load_balancer_arn)) =
      \<lparr>default_allow = Some (), default_block = None\<rparr>
   \<and> (\<forall>r \<in> set (rules (web_acl (WAFStack_init config load_balancer_arn))).
         counts_only r \<and> \<not> specifies_block r)"
proof -
  have "default_action (web_acl (WAFStack_init config load_balancer_arn)) =
      \<lparr>default_allow = Some (), default_block = None\<rparr>"
    by (simp add: WAFStack_init_def Let_def)
  moreover have "\<forall>r \<in> set (rules (web_acl (WAFStack_init config load_balancer_arn))).
         counts_only r \<and> \<not> specifies_block r"
    by (simp add: rules_WAFStack_init counts_only_def specifies_block_def)
  ultimately show ?thesis by simp
qed

text \<open>The theorem at the rate-limit rule of the sample configuration.\<close>

theorem C9_no_blocking_action_witness:
  "rules (web_acl (WAFStack_init (sample_config []) ''alb-arn'')) ! 1
     \<in> set (rules (web_acl (WAFStack_init (sample_config []) ''alb-arn'')))
   \<and> counts_only (rules (web_acl (WAFStack_init (sample_config []) ''alb-arn'')) ! 1)
   \<and> \<not> specifies_block (rules (web_acl (WAFStack_init (sample_config []) ''alb-arn'')) ! 1)"
proof -
  have m: "rules (web_acl (WAFStack_init (sample_config []) ''alb-arn'')) ! 1
     \<in> set (rules (web_acl (WAFStack_init (sample_config []) ''alb-arn'')))"
    by (simp add: rules_WAFStack_init)
  with C9_no_blocking_action [of "sample_config []" "''alb-arn''"] show ?thesis
    by blast
qed

end
